theory Spec2Isabelle
  imports Complex_Main "HOL-Library.Sublist"
begin

section \<open>Python values, errors and the catalog row\<close>

text \<open>
  The module \<^verbatim>\<open>descwl/model.py\<close> builds galaxy source models from catalog rows.
  Numbers are modelled as exact reals: rounding of machine floats is outside this
  development. Every \<^verbatim>\<open>raise\<close>, failed \<^verbatim>\<open>assert\<close> and failing built-in operation
  of the source is a value \<open>Inl e\<close> of the result type \<open>error + 'a\<close>;
  \<open>OtherException name\<close> stands for an exception of any other class, which only code
  outside the module can raise.
\<close>

datatype error =
    RuntimeError string
  | KeyError string
  | ZeroDivisionError
  | ValueError
  | AssertionError string
  | TypeError
  | OtherException string

text \<open>Sequencing of statements that may raise: the first error ends the call.\<close>

definition and_then :: "error + 'a \<Rightarrow> ('a \<Rightarrow> error + 'b) \<Rightarrow> error + 'b" where
  "and_then r f = (case r of Inl e \<Rightarrow> Inl e | Inr v \<Rightarrow> f v)"

text \<open>
  A catalog row maps field names to numbers; \<^verbatim>\<open>entry[key]\<close> raises \<^verbatim>\<open>KeyError\<close> for a
  field the row lacks.
\<close>

type_synonym Row = "string \<rightharpoonup> real"

definition getitem :: "Row \<Rightarrow> string \<Rightarrow> error + real" where
  "getitem entry key = (case entry key of None \<Rightarrow> Inl (KeyError key) | Some v \<Rightarrow> Inr v)"

text \<open>
  Python's \<^verbatim>\<open>x/y\<close> on floats raises \<^verbatim>\<open>ZeroDivisionError\<close> for a zero divisor,
  \<^verbatim>\<open>math.sqrt\<close> raises \<^verbatim>\<open>ValueError\<close> below zero, and \<^verbatim>\<open>math.radians\<close> converts
  degrees to radians.
\<close>

definition truediv :: "real \<Rightarrow> real \<Rightarrow> error + real" where
  "truediv x y = (if y = 0 then Inl ZeroDivisionError else Inr (x / y))"

definition math_sqrt :: "real \<Rightarrow> error + real" where
  "math_sqrt x = (if x < 0 then Inl ValueError else Inr (sqrt x))"

definition math_radians :: "real \<Rightarrow> real" where
  "math_radians x = x * pi / 180"

section \<open>The rendering library\<close>

text \<open>
  \<^verbatim>\<open>galsim\<close> is an external library: none of its code is part of the module. The
  module uses six of its operations, taken here as a parameter: the constructors
  \<^verbatim>\<open>galsim.Exponential(flux, half_light_radius)\<close>,
  \<^verbatim>\<open>galsim.DeVaucouleurs(flux, half_light_radius)\<close>, \<^verbatim>\<open>galsim.Gaussian(flux, sigma)\<close> and
  \<^verbatim>\<open>galsim.Add(components)\<close>, and the methods \<^verbatim>\<open>obj.shear(q, beta)\<close> and
  \<^verbatim>\<open>obj.shift(dx, dy)\<close> of the objects it makes. Each of them may raise (an empty sum,
  a radius or axis ratio out of range, a \<^verbatim>\<open>None\<close> argument, ...), so each returns
  \<open>error + 'obj\<close>; nothing is assumed about when. An argument that the callers may
  leave as \<^verbatim>\<open>None\<close> is a \<open>real option\<close>. The field \<open>shear\<close> stands for the whole expression
  \<^verbatim>\<open>obj.shear(q = q, beta = beta_radians*galsim.radians)\<close>: the product with the
  library's angle unit and the call, both evaluated by the library with nothing of
  the module in between.
\<close>

record 'obj GalSim =
  Exponential :: "real \<Rightarrow> real option \<Rightarrow> error + 'obj"
  DeVaucouleurs :: "real \<Rightarrow> real option \<Rightarrow> error + 'obj"
  Gaussian :: "real \<Rightarrow> real \<Rightarrow> error + 'obj"
  shear :: "'obj \<Rightarrow> real option \<Rightarrow> real option \<Rightarrow> error + 'obj"
  Add :: "'obj list \<Rightarrow> error + 'obj"
  shift :: "'obj \<Rightarrow> real \<Rightarrow> real \<Rightarrow> error + 'obj"

text \<open>
  An instance of the interface for evaluating the methods on concrete inputs: it
  records every call as a term, and refuses a \<^verbatim>\<open>None\<close> argument and an empty sum.
\<close>

datatype profile =
    Exponential_profile real real
  | DeVaucouleurs_profile real real
  | Gaussian_profile real real
  | Sheared profile real real
  | Sum_profile "profile list"
  | Shifted profile real real

definition recording_galsim :: "profile GalSim" where
  "recording_galsim =
    \<lparr>Exponential = (\<lambda>flux hlr.
       case hlr of None \<Rightarrow> Inl TypeError | Some h \<Rightarrow> Inr (Exponential_profile flux h)),
     DeVaucouleurs = (\<lambda>flux hlr.
       case hlr of None \<Rightarrow> Inl TypeError | Some h \<Rightarrow> Inr (DeVaucouleurs_profile flux h)),
     Gaussian = (\<lambda>flux sigma. Inr (Gaussian_profile flux sigma)),
     shear = (\<lambda>obj q beta.
       case (q, beta) of (Some q', Some b) \<Rightarrow> Inr (Sheared obj q' b) | _ \<Rightarrow> Inl TypeError),
     Add = (\<lambda>components.
       if components = [] then Inl ValueError else Inr (Sum_profile components)),
     shift = (\<lambda>obj dx dy. Inr (Shifted obj dx dy))\<rparr>"

section \<open>class Galaxy\<close>

record 'obj Galaxy =
  "identifier" :: real
  redshift :: real
  dx_arcsecs :: real
  dy_arcsecs :: real
  model :: 'obj

text \<open>
  \<^verbatim>\<open>Galaxy.__init__\<close> (lines 44 to 69), with the library as its first argument. The
  position angle and the shape arguments may be \<^verbatim>\<open>None\<close> (\<^verbatim>\<open>from_catalog\<close> passes \<^verbatim>\<open>None\<close>
  for a component it leaves out). The list \<open>components\<close> is threaded through the three
  \<^verbatim>\<open>if\<close> statements as the source appends to it; the first library call that raises
  ends the construction, also the final \<^verbatim>\<open>galsim.Add\<close> and \<^verbatim>\<open>shift\<close> of line 69.
\<close>

definition Galaxy_init ::
  "'obj GalSim \<Rightarrow> real \<Rightarrow> real \<Rightarrow> real \<Rightarrow> real \<Rightarrow> real option \<Rightarrow>
   real \<Rightarrow> real option \<Rightarrow> real option \<Rightarrow>
   real \<Rightarrow> real option \<Rightarrow> real option \<Rightarrow> real \<Rightarrow> error + 'obj Galaxy" where
  "Galaxy_init galsim ident z dx dy beta_radians
      disk_fl disk_hlr disk_q bulge_fl bulge_hlr bulge_q agn_fl =
    and_then
      (if disk_fl > 0 then
         and_then (Exponential galsim disk_fl disk_hlr) (\<lambda>profile.
         and_then (shear galsim profile disk_q beta_radians) (\<lambda>disk.
         Inr ([] @ [disk])))
       else Inr [])
      (\<lambda>components. and_then
        (if bulge_fl > 0 then
           and_then (DeVaucouleurs galsim bulge_fl bulge_hlr) (\<lambda>profile.
           and_then (shear galsim profile bulge_q beta_radians) (\<lambda>bulge.
           Inr (components @ [bulge])))
         else Inr components)
        (\<lambda>components. and_then
          (if agn_fl > 0 then
             and_then (Gaussian galsim agn_fl (1 / 10 ^ 8)) (\<lambda>agn.
             Inr (components @ [agn]))
           else Inr components)
          (\<lambda>components.
            and_then (Add galsim components) (\<lambda>total.
            and_then (shift galsim total dx dy) (\<lambda>shifted.
            Inr \<lparr>identifier = ident, redshift = z, dx_arcsecs = dx, dy_arcsecs = dy,
                 model = shifted\<rparr>)))))"

section \<open>class GalaxyBuilder\<close>

text \<open>
  The survey object comes from \<^verbatim>\<open>descwl/survey.py\<close>, which is not among the sources
  here; \<^verbatim>\<open>from_catalog\<close> uses only its method \<^verbatim>\<open>get_flux\<close>, taken as a parameter: a
  function from an AB magnitude to a flux in detected electrons.
\<close>

record Survey =
  get_flux :: "real \<Rightarrow> real"

record GalaxyBuilder =
  survey :: Survey
  no_disk :: bool
  no_bulge :: bool
  no_agn :: bool
  verbose_model :: bool

text \<open>\<^verbatim>\<open>GalaxyBuilder.__init__\<close> (lines 81 to 88).\<close>

definition GalaxyBuilder_init ::
  "Survey \<Rightarrow> bool \<Rightarrow> bool \<Rightarrow> bool \<Rightarrow> bool \<Rightarrow> error + GalaxyBuilder" where
  "GalaxyBuilder_init s nd nb na v =
    (if nd \<and> nb \<and> na then Inl (RuntimeError ''Must build at least one galaxy component.'')
     else Inr \<lparr>survey = s, no_disk = nd, no_bulge = nb, no_agn = na, verbose_model = v\<rparr>)"

subsection \<open>from_catalog, lines 113 to 123: the fluxes\<close>

text \<open>
  The \<^verbatim>\<open>try\<close> block catches the \<^verbatim>\<open>KeyError\<close> of the magnitude lookup and raises a
  \<^verbatim>\<open>RuntimeError\<close> whose message is the string literal of line 117.
\<close>

definition lookup_magnitude :: "Row \<Rightarrow> string \<Rightarrow> error + real" where
  "lookup_magnitude entry filter_band =
    (case entry (filter_band @ ''_ab'') of
       None \<Rightarrow> Inl (RuntimeError ''Catalog entry is missing %s-band AB flux value.'')
     | Some ab \<Rightarrow> Inr ab)"

record Fluxes =
  ab_magnitude :: real
  total_flux :: real
  disk_flux :: real
  bulge_flux :: real
  agn_flux :: real

text \<open>
  Lines 120 to 123. A conditional expression evaluates only the branch it takes: a
  suppressed component is \<open>0\<close> with no lookup and no division.
\<close>

definition resolve_fluxes :: "GalaxyBuilder \<Rightarrow> Row \<Rightarrow> string \<Rightarrow> error + Fluxes" where
  "resolve_fluxes self entry filter_band =
    and_then (lookup_magnitude entry filter_band) (\<lambda>ab.
    let total = get_flux (survey self) ab in
    and_then (getitem entry ''fluxnorm_disk'') (\<lambda>nd.
    and_then (getitem entry ''fluxnorm_bulge'') (\<lambda>nb.
    and_then (getitem entry ''fluxnorm_agn'') (\<lambda>na.
    let total_fluxnorm = nd + nb + na in
    and_then
      (if no_disk self then Inr 0
       else and_then (getitem entry ''fluxnorm_disk'') (\<lambda>f.
            and_then (truediv f total_fluxnorm) (\<lambda>r. Inr (r * total)))) (\<lambda>d.
    and_then
      (if no_bulge self then Inr 0
       else and_then (getitem entry ''fluxnorm_bulge'') (\<lambda>f.
            and_then (truediv f total_fluxnorm) (\<lambda>r. Inr (r * total)))) (\<lambda>b.
    and_then
      (if no_agn self then Inr 0
       else and_then (getitem entry ''fluxnorm_agn'') (\<lambda>f.
            and_then (truediv f total_fluxnorm) (\<lambda>r. Inr (r * total)))) (\<lambda>a.
    Inr \<lparr>ab_magnitude = ab, total_flux = total,
         disk_flux = d, bulge_flux = b, agn_flux = a\<rparr>)))))))"

subsection \<open>from_catalog, lines 127 to 153: angle, shapes, metadata\<close>

text \<open>
  Lines 128 to 136: the position angle shared by the Sersic components. The
  \<^verbatim>\<open>assert\<close> of line 131 is taken as enabled; it reads \<^verbatim>\<open>pa_disk\<close> a second time.
\<close>

definition resolve_beta :: "Row \<Rightarrow> real \<Rightarrow> real \<Rightarrow> error + real option" where
  "resolve_beta entry d b =
    (if d > 0 then
       and_then (getitem entry ''pa_disk'') (\<lambda>pa.
       let beta = math_radians pa in
       if b > 0 then
         and_then (getitem entry ''pa_disk'') (\<lambda>pd.
         and_then (getitem entry ''pa_bulge'') (\<lambda>pb.
         if pd = pb then Inr (Some beta)
         else Inl (AssertionError ''Sersic components have different beta.'')))
       else Inr (Some beta))
     else if b > 0 then
       and_then (getitem entry ''pa_bulge'') (\<lambda>pa. Inr (Some (math_radians pa)))
     else Inr None)"

text \<open>Lines 138 to 143: the disk's half-light radius and axis ratio.\<close>

definition disk_shape :: "Row \<Rightarrow> real \<Rightarrow> error + (real option \<times> real option)" where
  "disk_shape entry d =
    (if d > 0 then
       and_then (getitem entry ''a_d'') (\<lambda>a.
       and_then (getitem entry ''b_d'') (\<lambda>b.
       and_then (math_sqrt (a * b)) (\<lambda>hlr.
       and_then (truediv b a) (\<lambda>q.
       Inr (Some hlr, Some q)))))
     else Inr (None, None))"

text \<open>
  Lines 144 to 150: the same for the bulge; line 148 reads \<^verbatim>\<open>pa_bulge\<close> once more
  into a variable that is not used afterwards.
\<close>

definition bulge_shape :: "Row \<Rightarrow> real \<Rightarrow> error + (real option \<times> real option)" where
  "bulge_shape entry b =
    (if b > 0 then
       and_then (getitem entry ''a_b'') (\<lambda>a.
       and_then (getitem entry ''b_b'') (\<lambda>b'.
       and_then (math_sqrt (a * b')) (\<lambda>hlr.
       and_then (truediv b' a) (\<lambda>q.
       and_then (getitem entry ''pa_bulge'') (\<lambda>pa.
       Inr (Some hlr, Some q))))))
     else Inr (None, None))"

text \<open>
  Lines 127 to 153 as a whole: the values of the local variables that the rest of the
  method uses, after the lookups of \<^verbatim>\<open>id\<close> and \<^verbatim>\<open>redshift\<close>.
\<close>

record Resolved =
  beta_radians :: "real option"
  disk_hlr_arcsecs :: "real option"
  disk_q :: "real option"
  bulge_hlr_arcsecs :: "real option"
  bulge_q :: "real option"
  catalog_id :: real
  catalog_redshift :: real

definition resolve_parameters :: "Row \<Rightarrow> Fluxes \<Rightarrow> error + Resolved" where
  "resolve_parameters entry fl =
    and_then (resolve_beta entry (disk_flux fl) (bulge_flux fl)) (\<lambda>beta.
    and_then (disk_shape entry (disk_flux fl)) (\<lambda>ds.
    and_then (bulge_shape entry (bulge_flux fl)) (\<lambda>bs.
    and_then (getitem entry ''id'') (\<lambda>i.
    and_then (getitem entry ''redshift'') (\<lambda>z.
    Inr \<lparr>beta_radians = beta, disk_hlr_arcsecs = fst ds, disk_q = snd ds,
         bulge_hlr_arcsecs = fst bs, bulge_q = snd bs,
         catalog_id = i, catalog_redshift = z\<rparr>)))))"

subsection \<open>from_catalog, lines 154 to 167: the verbose report\<close>

text \<open>
  Each \<^verbatim>\<open>print\<close> statement is a line of the report, kept with the values it formats.
  Formatting \<^verbatim>\<open>None\<close> with \<^verbatim>\<open>%.6f\<close> is a \<^verbatim>\<open>TypeError\<close>, raised before the line is
  printed; the lines printed before it stay printed. \<open>emit\<close> runs the statements in
  order up to the first that raises; \<open>format3\<close> is the evaluation of one
  \<^verbatim>\<open>'... %.6f ... %.6f ... %.6f' % (fraction, hlr, q)\<close>: the tuple first (its division
  may raise), then the formatting.
\<close>

datatype report_line =
    Building_line real real
  | Flux_line real string real
  | Centroid_line real real real
  | Disk_line real real real
  | Bulge_line real real real
  | AGN_line real

fun emit :: "(error + report_line) list \<Rightarrow> report_line list \<times> error option" where
  "emit [] = ([], None)"
| "emit (Inl e # rest) = ([], Some e)"
| "emit (Inr l # rest) = (l # fst (emit rest), snd (emit rest))"

definition format3 ::
  "(real \<Rightarrow> real \<Rightarrow> real \<Rightarrow> report_line) \<Rightarrow> error + real \<Rightarrow> real option \<Rightarrow> real option \<Rightarrow>
   error + report_line" where
  "format3 mk fraction hlr q =
    and_then fraction (\<lambda>f.
      case (hlr, q) of (Some h, Some q') \<Rightarrow> Inr (mk f h q') | _ \<Rightarrow> Inl TypeError)"

definition verbose_report ::
  "Fluxes \<Rightarrow> Resolved \<Rightarrow> real \<Rightarrow> real \<Rightarrow> string \<Rightarrow> report_line list \<times> error option" where
  "verbose_report fl rs dx dy filter_band =
    emit
      ([Inr (Building_line (catalog_id rs) (catalog_redshift rs)),
        Inr (Flux_line (total_flux fl) filter_band (ab_magnitude fl)),
        (case beta_radians rs of
           None \<Rightarrow> Inl TypeError
         | Some beta \<Rightarrow> Inr (Centroid_line dx dy beta))]
       @ (if disk_flux fl > 0 then
            [format3 Disk_line (truediv (disk_flux fl) (total_flux fl))
               (disk_hlr_arcsecs rs) (disk_q rs)]
          else [])
       @ (if bulge_flux fl > 0 then
            [format3 Bulge_line (truediv (bulge_flux fl) (total_flux fl))
               (bulge_hlr_arcsecs rs) (bulge_q rs)]
          else [])
       @ (if agn_flux fl > 0 then
            [and_then (truediv (agn_flux fl) (total_flux fl)) (\<lambda>f. Inr (AGN_line f))]
          else []))"

subsection \<open>from_catalog, the whole method\<close>

text \<open>
  The method returns either the class \<^verbatim>\<open>SourceNotVisible\<close> (line 126: returned, not
  raised) or a new \<^verbatim>\<open>Galaxy\<close>, built with the library given as the first argument.
  A call is recorded with what it returned or raised, the
  report lines it printed, and the builder as the call leaves it: no statement of the
  method assigns to an attribute of \<^verbatim>\<open>self\<close>.
\<close>

datatype 'obj returned = SourceNotVisible | Built "'obj Galaxy"

record 'obj Call =
  outcome :: "error + 'obj returned"
  printed :: "report_line list"
  self_after :: GalaxyBuilder

definition from_catalog ::
  "'obj GalSim \<Rightarrow> GalaxyBuilder \<Rightarrow> Row \<Rightarrow> real \<Rightarrow> real \<Rightarrow> string \<Rightarrow> 'obj Call" where
  "from_catalog galsim self entry dx dy filter_band =
    (case resolve_fluxes self entry filter_band of
       Inl e \<Rightarrow> \<lparr>outcome = Inl e, printed = [], self_after = self\<rparr>
     | Inr fl \<Rightarrow>
         if disk_flux fl + bulge_flux fl + agn_flux fl = 0 then
           \<lparr>outcome = Inr SourceNotVisible, printed = [], self_after = self\<rparr>
         else
           (case resolve_parameters entry fl of
              Inl e \<Rightarrow> \<lparr>outcome = Inl e, printed = [], self_after = self\<rparr>
            | Inr rs \<Rightarrow>
                let report =
                  (if verbose_model self then verbose_report fl rs dx dy filter_band
                   else ([], None))
                in
                (case snd report of
                   Some e \<Rightarrow> \<lparr>outcome = Inl e, printed = fst report, self_after = self\<rparr>
                 | None \<Rightarrow>
                     \<lparr>outcome =
                        and_then
                          (Galaxy_init galsim (catalog_id rs) (catalog_redshift rs) dx dy
                             (beta_radians rs)
                             (disk_flux fl) (disk_hlr_arcsecs rs) (disk_q rs)
                             (bulge_flux fl) (bulge_hlr_arcsecs rs) (bulge_q rs)
                             (agn_flux fl))
                          (\<lambda>g. Inr (Built g)),
                      printed = fst report, self_after = self\<rparr>)))"

section \<open>Auxiliary facts\<close>

lemma and_then_Inl: "and_then (Inl e) f = Inl e"
  by (simp add: and_then_def)

lemma and_then_Inr: "and_then (Inr v) f = f v"
  by (simp add: and_then_def)

lemma and_then_eq_Inr:
  "and_then r f = Inr y \<longleftrightarrow> (\<exists>v. r = Inr v \<and> f v = Inr y)"
  by (cases r) (simp_all add: and_then_def)

lemma getitem_Some: "entry key = Some v \<Longrightarrow> getitem entry key = Inr v"
  by (simp add: getitem_def)

lemma getitem_None: "entry key = None \<Longrightarrow> getitem entry key = Inl (KeyError key)"
  by (simp add: getitem_def)



lemma resolve_fluxes_value:
  assumes "entry (band @ ''_ab'') = Some m"
    and "entry ''fluxnorm_disk'' = Some nd"
    and "entry ''fluxnorm_bulge'' = Some nb"
    and "entry ''fluxnorm_agn'' = Some na"
    and "nd + nb + na \<noteq> 0"
  shows "resolve_fluxes self entry band =
    Inr \<lparr>ab_magnitude = m, total_flux = get_flux (survey self) m,
         disk_flux = (if no_disk self then 0
                      else nd / (nd + nb + na) * get_flux (survey self) m),
         bulge_flux = (if no_bulge self then 0
                       else nb / (nd + nb + na) * get_flux (survey self) m),
         agn_flux = (if no_agn self then 0
                     else na / (nd + nb + na) * get_flux (survey self) m)\<rparr>"
  using assms
  by (simp add: resolve_fluxes_def lookup_magnitude_def getitem_def and_then_Inl
        and_then_Inr truediv_def Let_def)

lemma resolve_fluxes_zero_norm:
  assumes "entry (band @ ''_ab'') = Some m"
    and "entry ''fluxnorm_disk'' = Some nd"
    and "entry ''fluxnorm_bulge'' = Some nb"
    and "entry ''fluxnorm_agn'' = Some na"
    and "nd + nb + na = 0"
    and "\<not> (no_disk self \<and> no_bulge self \<and> no_agn self)"
  shows "resolve_fluxes self entry band = Inl ZeroDivisionError"
  using assms
  by (cases "no_disk self"; cases "no_bulge self"; cases "no_agn self")
     (simp_all add: resolve_fluxes_def lookup_magnitude_def getitem_def and_then_Inl
        and_then_Inr truediv_def Let_def)


lemma resolve_fluxes_missing_band:
  "entry (band @ ''_ab'') = None \<Longrightarrow>
   resolve_fluxes self entry band =
     Inl (RuntimeError ''Catalog entry is missing %s-band AB flux value.'')"
  by (simp add: resolve_fluxes_def lookup_magnitude_def and_then_Inl)

lemma from_catalog_self_after: "self_after (from_catalog galsim self entry dx dy band) = self"
  by (simp add: from_catalog_def Let_def split: sum.splits option.splits)














lemma Galaxy_init_unfold:
  "Galaxy_init galsim ident z dx dy beta disk_fl disk_hlr disk_ratio
      bulge_fl bulge_hlr bulge_ratio agn_fl =
    and_then
      (if disk_fl > 0 then
         and_then (Exponential galsim disk_fl disk_hlr) (\<lambda>p.
         and_then (shear galsim p disk_ratio beta) (\<lambda>disk. Inr [disk]))
       else Inr [])
      (\<lambda>ds. and_then
        (if bulge_fl > 0 then
           and_then (DeVaucouleurs galsim bulge_fl bulge_hlr) (\<lambda>p.
           and_then (shear galsim p bulge_ratio beta) (\<lambda>bulge. Inr [bulge]))
         else Inr [])
        (\<lambda>bs. and_then
          (if agn_fl > 0 then
             and_then (Gaussian galsim agn_fl (1 / 10 ^ 8)) (\<lambda>agn. Inr [agn])
           else Inr [])
          (\<lambda>as.
            and_then (Add galsim (ds @ bs @ as)) (\<lambda>total.
            and_then (shift galsim total dx dy) (\<lambda>shifted.
            Inr \<lparr>identifier = ident, redshift = z, dx_arcsecs = dx, dy_arcsecs = dy,
                 model = shifted\<rparr>)))))"
  by (cases "disk_fl > 0"; cases "bulge_fl > 0"; cases "agn_fl > 0";
      cases "Exponential galsim disk_fl disk_hlr";
      cases "DeVaucouleurs galsim bulge_fl bulge_hlr";
      cases "Gaussian galsim agn_fl (1 / 10 ^ 8)")
     (auto simp: Galaxy_init_def and_then_def split: sum.splits)

lemma Galaxy_init_eq_Inr:
  "Galaxy_init galsim ident z dx dy beta disk_fl disk_hlr disk_ratio
       bulge_fl bulge_hlr bulge_ratio agn_fl = Inr g \<longleftrightarrow>
     (\<exists>disk bulge agn total.
        (disk_fl > 0 \<longrightarrow> (\<exists>p. Exponential galsim disk_fl disk_hlr = Inr p \<and>
                              shear galsim p disk_ratio beta = Inr disk)) \<and>
        (bulge_fl > 0 \<longrightarrow> (\<exists>p. DeVaucouleurs galsim bulge_fl bulge_hlr = Inr p \<and>
                               shear galsim p bulge_ratio beta = Inr bulge)) \<and>
        (agn_fl > 0 \<longrightarrow> Gaussian galsim agn_fl (1 / 10 ^ 8) = Inr agn) \<and>
        Add galsim (map snd (filter (\<lambda>c. fst c > 0)
          [(disk_fl, disk), (bulge_fl, bulge), (agn_fl, agn)])) = Inr total \<and>
        shift galsim total dx dy = Inr (model g) \<and>
        identifier g = ident \<and> redshift g = z \<and> dx_arcsecs g = dx \<and> dy_arcsecs g = dy)"
  by (cases "disk_fl > 0"; cases "bulge_fl > 0"; cases "agn_fl > 0")
     (auto simp: Galaxy_init_unfold and_then_eq_Inr)

lemma Galaxy_init_unused:
  "\<not> disk_fl > 0 \<Longrightarrow>
     Galaxy_init galsim ident z dx dy beta disk_fl disk_hlr disk_ratio
       bulge_fl bulge_hlr bulge_ratio agn_fl =
     Galaxy_init galsim ident z dx dy beta disk_fl disk_hlr' disk_ratio'
       bulge_fl bulge_hlr bulge_ratio agn_fl"
  "\<not> bulge_fl > 0 \<Longrightarrow>
     Galaxy_init galsim ident z dx dy beta disk_fl disk_hlr disk_ratio
       bulge_fl bulge_hlr bulge_ratio agn_fl =
     Galaxy_init galsim ident z dx dy beta disk_fl disk_hlr disk_ratio
       bulge_fl bulge_hlr' bulge_ratio' agn_fl"
  "\<not> disk_fl > 0 \<and> \<not> bulge_fl > 0 \<Longrightarrow>
     Galaxy_init galsim ident z dx dy beta disk_fl disk_hlr disk_ratio
       bulge_fl bulge_hlr bulge_ratio agn_fl =
     Galaxy_init galsim ident z dx dy beta' disk_fl disk_hlr disk_ratio
       bulge_fl bulge_hlr bulge_ratio agn_fl"
  by (simp_all add: Galaxy_init_unfold)

section \<open>Properties of the builder and of from_catalog\<close>

text \<open>
  C1. Whenever the three component fluxes are resolved (magnitude and fractions read,
  no division by zero) and sum to exactly zero, \<^verbatim>\<open>from_catalog\<close> returns the
  not-visible signal: the outcome is the returned class \<^verbatim>\<open>SourceNotVisible\<close>, neither a
  Galaxy nor an error.
\<close>

theorem from_catalog_not_visible:
  assumes "resolve_fluxes self entry band = Inr fl"
    and "disk_flux fl + bulge_flux fl + agn_flux fl = 0"
  shows "outcome (from_catalog galsim self entry dx dy band) = Inr SourceNotVisible"
  using assms by (simp add: from_catalog_def)

theorem from_catalog_not_visible_witness:
  "resolve_fluxes
     \<lparr>survey = \<lparr>get_flux = (\<lambda>m. 1000)\<rparr>, no_disk = True, no_bulge = True,
      no_agn = False, verbose_model = True\<rparr>
     [''r_ab'' \<mapsto> 24, ''fluxnorm_disk'' \<mapsto> 1, ''fluxnorm_bulge'' \<mapsto> 0, ''fluxnorm_agn'' \<mapsto> 0]
     ''r''
   = Inr \<lparr>ab_magnitude = 24, total_flux = 1000, disk_flux = 0, bulge_flux = 0, agn_flux = 0\<rparr>
   \<and> outcome (from_catalog recording_galsim
     \<lparr>survey = \<lparr>get_flux = (\<lambda>m. 1000)\<rparr>, no_disk = True, no_bulge = True,
      no_agn = False, verbose_model = True\<rparr>
     [''r_ab'' \<mapsto> 24, ''fluxnorm_disk'' \<mapsto> 1, ''fluxnorm_bulge'' \<mapsto> 0, ''fluxnorm_agn'' \<mapsto> 0]
     3 4 ''r'') = Inr SourceNotVisible"
proof -
  have fl: "resolve_fluxes
     \<lparr>survey = \<lparr>get_flux = (\<lambda>m. 1000)\<rparr>, no_disk = True, no_bulge = True,
      no_agn = False, verbose_model = True\<rparr>
     [''r_ab'' \<mapsto> 24, ''fluxnorm_disk'' \<mapsto> 1, ''fluxnorm_bulge'' \<mapsto> 0, ''fluxnorm_agn'' \<mapsto> 0]
     ''r''
   = Inr \<lparr>ab_magnitude = 24, total_flux = 1000, disk_flux = 0, bulge_flux = 0, agn_flux = 0\<rparr>"
    by (simp add: resolve_fluxes_def lookup_magnitude_def getitem_def and_then_def truediv_def)
  from from_catalog_not_visible [OF fl] fl show ?thesis by simp
qed

text \<open>
  C2. For a row whose three flux-normalization fractions have a nonzero sum, each
  component's flux is resolved as fraction / sum of fractions * total flux when the
  component is not suppressed and as 0 when it is; with fractions 0.6, 0.3, 0.1, total
  flux 1000 and no suppression the fluxes are 600, 300 and 100, which sum to 1000.
\<close>

theorem flux_split:
  "(entry (band @ ''_ab'') = Some m \<and>
    entry ''fluxnorm_disk'' = Some nd \<and>
    entry ''fluxnorm_bulge'' = Some nb \<and>
    entry ''fluxnorm_agn'' = Some na \<and>
    nd + nb + na \<noteq> 0 \<longrightarrow>
    (\<exists>fl. resolve_fluxes self entry band = Inr fl \<and>
       total_flux fl = get_flux (survey self) m \<and>
       disk_flux fl =
         (if no_disk self then 0 else nd / (nd + nb + na) * total_flux fl) \<and>
       bulge_flux fl =
         (if no_bulge self then 0 else nb / (nd + nb + na) * total_flux fl) \<and>
       agn_flux fl =
         (if no_agn self then 0 else na / (nd + nb + na) * total_flux fl)))
   \<and>
   (entry (band @ ''_ab'') = Some m \<and>
    entry ''fluxnorm_disk'' = Some (6 / 10) \<and>
    entry ''fluxnorm_bulge'' = Some (3 / 10) \<and>
    entry ''fluxnorm_agn'' = Some (1 / 10) \<and>
    get_flux (survey self) m = 1000 \<and>
    \<not> no_disk self \<and> \<not> no_bulge self \<and> \<not> no_agn self \<longrightarrow>
    (\<exists>fl. resolve_fluxes self entry band = Inr fl \<and>
       disk_flux fl = 600 \<and> bulge_flux fl = 300 \<and> agn_flux fl = 100 \<and>
       disk_flux fl + bulge_flux fl + agn_flux fl = 1000))"
proof (intro conjI impI)
  assume h: "entry (band @ ''_ab'') = Some m \<and>
    entry ''fluxnorm_disk'' = Some nd \<and>
    entry ''fluxnorm_bulge'' = Some nb \<and>
    entry ''fluxnorm_agn'' = Some na \<and>
    nd + nb + na \<noteq> 0"
  then have "resolve_fluxes self entry band =
    Inr \<lparr>ab_magnitude = m, total_flux = get_flux (survey self) m,
         disk_flux = (if no_disk self then 0
                      else nd / (nd + nb + na) * get_flux (survey self) m),
         bulge_flux = (if no_bulge self then 0
                       else nb / (nd + nb + na) * get_flux (survey self) m),
         agn_flux = (if no_agn self then 0
                     else na / (nd + nb + na) * get_flux (survey self) m)\<rparr>"
    by (intro resolve_fluxes_value) simp_all
  then show "\<exists>fl. resolve_fluxes self entry band = Inr fl \<and>
       total_flux fl = get_flux (survey self) m \<and>
       disk_flux fl =
         (if no_disk self then 0 else nd / (nd + nb + na) * total_flux fl) \<and>
       bulge_flux fl =
         (if no_bulge self then 0 else nb / (nd + nb + na) * total_flux fl) \<and>
       agn_flux fl =
         (if no_agn self then 0 else na / (nd + nb + na) * total_flux fl)"
    by simp
next
  assume h: "entry (band @ ''_ab'') = Some m \<and>
    entry ''fluxnorm_disk'' = Some (6 / 10) \<and>
    entry ''fluxnorm_bulge'' = Some (3 / 10) \<and>
    entry ''fluxnorm_agn'' = Some (1 / 10) \<and>
    get_flux (survey self) m = 1000 \<and>
    \<not> no_disk self \<and> \<not> no_bulge self \<and> \<not> no_agn self"
  have nz: "(6 / 10 + 3 / 10 + 1 / 10 :: real) \<noteq> 0" by simp
  from h have "resolve_fluxes self entry band =
    Inr \<lparr>ab_magnitude = m, total_flux = get_flux (survey self) m,
         disk_flux = (if no_disk self then 0
                      else (6 / 10) / (6 / 10 + 3 / 10 + 1 / 10) * get_flux (survey self) m),
         bulge_flux = (if no_bulge self then 0
                       else (3 / 10) / (6 / 10 + 3 / 10 + 1 / 10) * get_flux (survey self) m),
         agn_flux = (if no_agn self then 0
                     else (1 / 10) / (6 / 10 + 3 / 10 + 1 / 10) * get_flux (survey self) m)\<rparr>"
    by (intro resolve_fluxes_value nz) simp_all
  with h show "\<exists>fl. resolve_fluxes self entry band = Inr fl \<and>
       disk_flux fl = 600 \<and> bulge_flux fl = 300 \<and> agn_flux fl = 100 \<and>
       disk_flux fl + bulge_flux fl + agn_flux fl = 1000"
    by simp
qed

theorem flux_split_witness:
  "\<exists>fl. resolve_fluxes
     \<lparr>survey = \<lparr>get_flux = (\<lambda>m. 1000)\<rparr>, no_disk = False, no_bulge = False,
      no_agn = False, verbose_model = False\<rparr>
     [''i_ab'' \<mapsto> 25, ''fluxnorm_disk'' \<mapsto> 6 / 10, ''fluxnorm_bulge'' \<mapsto> 3 / 10,
      ''fluxnorm_agn'' \<mapsto> 1 / 10]
     ''i'' = Inr fl \<and>
     disk_flux fl = 600 \<and> bulge_flux fl = 300 \<and> agn_flux fl = 100 \<and>
     disk_flux fl + bulge_flux fl + agn_flux fl = 1000"
  using flux_split [of
     "[''i_ab'' \<mapsto> 25, ''fluxnorm_disk'' \<mapsto> 6 / 10, ''fluxnorm_bulge'' \<mapsto> 3 / 10,
      ''fluxnorm_agn'' \<mapsto> 1 / 10]" "''i''" 25 "6 / 10" "3 / 10" "1 / 10"
     "\<lparr>survey = \<lparr>get_flux = (\<lambda>m. 1000)\<rparr>, no_disk = False, no_bulge = False,
      no_agn = False, verbose_model = False\<rparr>"]
  by simp





text \<open>
  C5. Constructing a builder with all three suppression flags true fails with the
  \<^verbatim>\<open>RuntimeError\<close> of line 83, so no builder exists on which \<^verbatim>\<open>from_catalog\<close> could be
  called; with any other combination of flags the construction succeeds and stores
  the arguments.
\<close>

theorem builder_init_suppression:
  "(nd \<and> nb \<and> na \<longrightarrow>
      GalaxyBuilder_init s nd nb na v =
        Inl (RuntimeError ''Must build at least one galaxy component.''))
   \<and>
   (\<not> (nd \<and> nb \<and> na) \<longrightarrow>
      GalaxyBuilder_init s nd nb na v =
        Inr \<lparr>survey = s, no_disk = nd, no_bulge = nb, no_agn = na, verbose_model = v\<rparr>)"
  by (simp add: GalaxyBuilder_init_def)

theorem builder_init_suppression_witness:
  "GalaxyBuilder_init \<lparr>get_flux = (\<lambda>m. 1000)\<rparr> True True True False =
     Inl (RuntimeError ''Must build at least one galaxy component.'')
   \<and> GalaxyBuilder_init \<lparr>get_flux = (\<lambda>m. 1000)\<rparr> True False True False =
     Inr \<lparr>survey = \<lparr>get_flux = (\<lambda>m. 1000)\<rparr>, no_disk = True, no_bulge = False,
          no_agn = True, verbose_model = False\<rparr>"
  using builder_init_suppression [of True True True "\<lparr>get_flux = (\<lambda>m. 1000)\<rparr>" False]
    builder_init_suppression [of True False True "\<lparr>get_flux = (\<lambda>m. 1000)\<rparr>" False]
  by simp

text \<open>
  C6. For a row that lacks the field \<^verbatim>\<open><band>_ab\<close> of the requested band,
  \<^verbatim>\<open>from_catalog\<close> raises a \<^verbatim>\<open>RuntimeError\<close> and builds no Galaxy; nothing is printed, the
  builder is left as it was, and a later call on it behaves as on the builder before
  the failed call.
\<close>

theorem from_catalog_missing_band:
  assumes "entry (band @ ''_ab'') = None"
  shows "(\<exists>msg. outcome (from_catalog galsim self entry dx dy band) = Inl (RuntimeError msg))
    \<and> (\<forall>g. outcome (from_catalog galsim self entry dx dy band) \<noteq> Inr (Built g))
    \<and> printed (from_catalog galsim self entry dx dy band) = []
    \<and> self_after (from_catalog galsim self entry dx dy band) = self
    \<and> from_catalog galsim (self_after (from_catalog galsim self entry dx dy band)) entry' dx' dy' band'
        = from_catalog galsim self entry' dx' dy' band'"
proof -
  have "resolve_fluxes self entry band =
      Inl (RuntimeError ''Catalog entry is missing %s-band AB flux value.'')"
    using assms by (rule resolve_fluxes_missing_band)
  then have "from_catalog galsim self entry dx dy band =
      \<lparr>outcome = Inl (RuntimeError ''Catalog entry is missing %s-band AB flux value.''),
       printed = [], self_after = self\<rparr>"
    by (simp add: from_catalog_def)
  then show ?thesis by simp
qed

theorem from_catalog_missing_band_witness:
  "[''g_ab'' \<mapsto> (24::real), ''fluxnorm_disk'' \<mapsto> 1] (''r'' @ ''_ab'') = None
   \<and> (\<exists>msg. outcome (from_catalog recording_galsim
       \<lparr>survey = \<lparr>get_flux = (\<lambda>m. 1000)\<rparr>, no_disk = False, no_bulge = True,
      no_agn = False, verbose_model = True\<rparr>
       [''g_ab'' \<mapsto> 24, ''fluxnorm_disk'' \<mapsto> 1] 0 0 ''r'') = Inl (RuntimeError msg))
   \<and> printed (from_catalog recording_galsim
       \<lparr>survey = \<lparr>get_flux = (\<lambda>m. 1000)\<rparr>, no_disk = False, no_bulge = True,
      no_agn = False, verbose_model = True\<rparr>
       [''g_ab'' \<mapsto> 24, ''fluxnorm_disk'' \<mapsto> 1] 0 0 ''r'') = []
   \<and> self_after (from_catalog recording_galsim
       \<lparr>survey = \<lparr>get_flux = (\<lambda>m. 1000)\<rparr>, no_disk = False, no_bulge = True,
      no_agn = False, verbose_model = True\<rparr>
       [''g_ab'' \<mapsto> 24, ''fluxnorm_disk'' \<mapsto> 1] 0 0 ''r'') =
       \<lparr>survey = \<lparr>get_flux = (\<lambda>m. 1000)\<rparr>, no_disk = False, no_bulge = True,
      no_agn = False, verbose_model = True\<rparr>"
proof -
  have absent: "[''g_ab'' \<mapsto> (24::real), ''fluxnorm_disk'' \<mapsto> 1] (''r'' @ ''_ab'') = None"
    by simp
  from absent from_catalog_missing_band [of
      "[''g_ab'' \<mapsto> 24, ''fluxnorm_disk'' \<mapsto> 1]" "''r''" recording_galsim
      "\<lparr>survey = \<lparr>get_flux = (\<lambda>m. 1000)\<rparr>, no_disk = False, no_bulge = True,
      no_agn = False, verbose_model = True\<rparr>" 0 0]
  show ?thesis by blast
qed

text \<open>
  C7. \<^verbatim>\<open>Galaxy.__init__\<close>, for any rendering library: a Galaxy is constructed exactly
  when the library builds every component whose flux argument is strictly positive
  (the disk and the bulge sheared by their axis ratio and the shared position angle,
  the nucleus a Gaussian of width \<open>1e-8\<close> with no shear), sums exactly these
  components in the order disk, bulge, nucleus, and shifts the sum by \<open>(dx, dy)\<close>;
  the Galaxy's model is that shifted sum. A component whose flux is not positive
  contributes nothing and its shape arguments are not used: the construction, error
  or not, is the same for any other values of them, \<^verbatim>\<open>None\<close> included, and with neither
  extended component the position angle is not used either.
\<close>

theorem galaxy_components:
  "(Galaxy_init galsim ident z dx dy beta disk_fl disk_hlr disk_ratio
       bulge_fl bulge_hlr bulge_ratio agn_fl = Inr g \<longleftrightarrow>
     (\<exists>disk bulge agn total.
        (disk_fl > 0 \<longrightarrow> (\<exists>p. Exponential galsim disk_fl disk_hlr = Inr p \<and>
                              shear galsim p disk_ratio beta = Inr disk)) \<and>
        (bulge_fl > 0 \<longrightarrow> (\<exists>p. DeVaucouleurs galsim bulge_fl bulge_hlr = Inr p \<and>
                               shear galsim p bulge_ratio beta = Inr bulge)) \<and>
        (agn_fl > 0 \<longrightarrow> Gaussian galsim agn_fl (1 / 10 ^ 8) = Inr agn) \<and>
        Add galsim (map snd (filter (\<lambda>c. fst c > 0)
          [(disk_fl, disk), (bulge_fl, bulge), (agn_fl, agn)])) = Inr total \<and>
        shift galsim total dx dy = Inr (model g) \<and>
        identifier g = ident \<and> redshift g = z \<and> dx_arcsecs g = dx \<and> dy_arcsecs g = dy))
   \<and>
   (\<not> disk_fl > 0 \<longrightarrow>
      Galaxy_init galsim ident z dx dy beta disk_fl disk_hlr disk_ratio
        bulge_fl bulge_hlr bulge_ratio agn_fl =
      Galaxy_init galsim ident z dx dy beta disk_fl other_hlr other_ratio
        bulge_fl bulge_hlr bulge_ratio agn_fl)
   \<and>
   (\<not> bulge_fl > 0 \<longrightarrow>
      Galaxy_init galsim ident z dx dy beta disk_fl disk_hlr disk_ratio
        bulge_fl bulge_hlr bulge_ratio agn_fl =
      Galaxy_init galsim ident z dx dy beta disk_fl disk_hlr disk_ratio
        bulge_fl other_hlr other_ratio agn_fl)
   \<and>
   (\<not> disk_fl > 0 \<and> \<not> bulge_fl > 0 \<longrightarrow>
      Galaxy_init galsim ident z dx dy beta disk_fl disk_hlr disk_ratio
        bulge_fl bulge_hlr bulge_ratio agn_fl =
      Galaxy_init galsim ident z dx dy other_beta disk_fl disk_hlr disk_ratio
        bulge_fl bulge_hlr bulge_ratio agn_fl)"
proof (intro conjI impI)
  show "Galaxy_init galsim ident z dx dy beta disk_fl disk_hlr disk_ratio
       bulge_fl bulge_hlr bulge_ratio agn_fl = Inr g \<longleftrightarrow>
     (\<exists>disk bulge agn total.
        (disk_fl > 0 \<longrightarrow> (\<exists>p. Exponential galsim disk_fl disk_hlr = Inr p \<and>
                              shear galsim p disk_ratio beta = Inr disk)) \<and>
        (bulge_fl > 0 \<longrightarrow> (\<exists>p. DeVaucouleurs galsim bulge_fl bulge_hlr = Inr p \<and>
                               shear galsim p bulge_ratio beta = Inr bulge)) \<and>
        (agn_fl > 0 \<longrightarrow> Gaussian galsim agn_fl (1 / 10 ^ 8) = Inr agn) \<and>
        Add galsim (map snd (filter (\<lambda>c. fst c > 0)
          [(disk_fl, disk), (bulge_fl, bulge), (agn_fl, agn)])) = Inr total \<and>
        shift galsim total dx dy = Inr (model g) \<and>
        identifier g = ident \<and> redshift g = z \<and> dx_arcsecs g = dx \<and> dy_arcsecs g = dy)"
    by (rule Galaxy_init_eq_Inr)
next
  assume "\<not> disk_fl > 0"
  then show "Galaxy_init galsim ident z dx dy beta disk_fl disk_hlr disk_ratio
        bulge_fl bulge_hlr bulge_ratio agn_fl =
      Galaxy_init galsim ident z dx dy beta disk_fl other_hlr other_ratio
        bulge_fl bulge_hlr bulge_ratio agn_fl"
    by (rule Galaxy_init_unused)
next
  assume "\<not> bulge_fl > 0"
  then show "Galaxy_init galsim ident z dx dy beta disk_fl disk_hlr disk_ratio
        bulge_fl bulge_hlr bulge_ratio agn_fl =
      Galaxy_init galsim ident z dx dy beta disk_fl disk_hlr disk_ratio
        bulge_fl other_hlr other_ratio agn_fl"
    by (rule Galaxy_init_unused)
next
  assume "\<not> disk_fl > 0 \<and> \<not> bulge_fl > 0"
  then show "Galaxy_init galsim ident z dx dy beta disk_fl disk_hlr disk_ratio
        bulge_fl bulge_hlr bulge_ratio agn_fl =
      Galaxy_init galsim ident z dx dy other_beta disk_fl disk_hlr disk_ratio
        bulge_fl bulge_hlr bulge_ratio agn_fl"
    by (rule Galaxy_init_unused)
qed

theorem galaxy_components_witness:
  "Galaxy_init recording_galsim 7 (1 / 2) 3 4 (Some 0) 600 (Some 2) (Some (1 / 2))
       0 None None 100 =
     Inr \<lparr>identifier = 7, redshift = 1 / 2, dx_arcsecs = 3, dy_arcsecs = 4,
          model = Shifted (Sum_profile [Sheared (Exponential_profile 600 2) (1 / 2) 0,
                                        Gaussian_profile 100 (1 / 10 ^ 8)]) 3 4\<rparr>
   \<and> Galaxy_init recording_galsim 7 (1 / 2) 3 4 (Some 0) 600 (Some 2) (Some (1 / 2))
       0 None None 100 =
     Galaxy_init recording_galsim 7 (1 / 2) 3 4 (Some 0) 600 (Some 2) (Some (1 / 2))
       0 (Some 5) (Some 9) 100"
proof (intro conjI)
  show "Galaxy_init recording_galsim 7 (1 / 2) 3 4 (Some 0) 600 (Some 2) (Some (1 / 2))
       0 None None 100 =
     Inr \<lparr>identifier = 7, redshift = 1 / 2, dx_arcsecs = 3, dy_arcsecs = 4,
          model = Shifted (Sum_profile [Sheared (Exponential_profile 600 2) (1 / 2) 0,
                                        Gaussian_profile 100 (1 / 10 ^ 8)]) 3 4\<rparr>"
    by (rule iffD2 [OF conjunct1 [OF galaxy_components]])
       (simp add: recording_galsim_def)
  show "Galaxy_init recording_galsim 7 (1 / 2) 3 4 (Some 0) 600 (Some 2) (Some (1 / 2))
       0 None None 100 =
     Galaxy_init recording_galsim 7 (1 / 2) 3 4 (Some 0) 600 (Some 2) (Some (1 / 2))
       0 (Some 5) (Some 9) 100"
    by (rule mp [OF conjunct1 [OF conjunct2 [OF conjunct2 [OF galaxy_components]]]]) simp
qed

text \<open>
  C9. For a row whose three flux-normalization fractions sum to exactly zero, on a
  builder that does not suppress all three components, the division by the sum in
  lines 121 to 123 comes before the visibility check of line 125: the call ends with a
  \<^verbatim>\<open>ZeroDivisionError\<close>, not with the not-visible signal.
\<close>

theorem from_catalog_zero_fluxnorm:
  assumes "entry (band @ ''_ab'') = Some m"
    and "entry ''fluxnorm_disk'' = Some nd"
    and "entry ''fluxnorm_bulge'' = Some nb"
    and "entry ''fluxnorm_agn'' = Some na"
    and "nd + nb + na = 0"
    and "\<not> (no_disk self \<and> no_bulge self \<and> no_agn self)"
  shows "outcome (from_catalog galsim self entry dx dy band) = Inl ZeroDivisionError"
proof -
  have "resolve_fluxes self entry band = Inl ZeroDivisionError"
    using assms by (rule resolve_fluxes_zero_norm)
  then show ?thesis by (simp add: from_catalog_def)
qed

theorem from_catalog_zero_fluxnorm_witness:
  "outcome (from_catalog recording_galsim
       \<lparr>survey = \<lparr>get_flux = (\<lambda>m. 1000)\<rparr>, no_disk = False, no_bulge = True,
      no_agn = False, verbose_model = True\<rparr>
       [''r_ab'' \<mapsto> 24, ''fluxnorm_disk'' \<mapsto> 0, ''fluxnorm_bulge'' \<mapsto> 0,
        ''fluxnorm_agn'' \<mapsto> 0] 0 0 ''r'') = Inl ZeroDivisionError"
  using from_catalog_zero_fluxnorm [of
       "[''r_ab'' \<mapsto> 24, ''fluxnorm_disk'' \<mapsto> 0, ''fluxnorm_bulge'' \<mapsto> 0,
        ''fluxnorm_agn'' \<mapsto> 0]" "''r''" 24 0 0 0
       "\<lparr>survey = \<lparr>get_flux = (\<lambda>m. 1000)\<rparr>, no_disk = False, no_bulge = True,
      no_agn = False, verbose_model = True\<rparr>" recording_galsim 0 0]
  by simp

text \<open>
  C10. When the magnitude field of the requested band is absent, the error carries
  the string literal of line 117 as it stands, the placeholder \<^verbatim>\<open>%s\<close> not
  interpolated: the message is the same for every band, and for each of the bands
  u, g, r, i, z, y it does not contain the text \<^verbatim>\<open><band>-band\<close> that interpolation
  would have put there.
\<close>

theorem missing_band_message:
  assumes "entry (band @ ''_ab'') = None"
  shows "outcome (from_catalog galsim self entry dx dy band) =
           Inl (RuntimeError ''Catalog entry is missing %s-band AB flux value.'')
    \<and> (band \<in> {''u'', ''g'', ''r'', ''i'', ''z'', ''y''} \<longrightarrow>
         \<not> sublist (band @ ''-band'') ''Catalog entry is missing %s-band AB flux value.'')"
proof (intro conjI impI)
  have "resolve_fluxes self entry band =
      Inl (RuntimeError ''Catalog entry is missing %s-band AB flux value.'')"
    using assms by (rule resolve_fluxes_missing_band)
  then show "outcome (from_catalog galsim self entry dx dy band) =
           Inl (RuntimeError ''Catalog entry is missing %s-band AB flux value.'')"
    by (simp add: from_catalog_def)
next
  assume "band \<in> {''u'', ''g'', ''r'', ''i'', ''z'', ''y''}"
  then show "\<not> sublist (band @ ''-band'') ''Catalog entry is missing %s-band AB flux value.''"
    by (elim insertE emptyE; hypsubst; code_simp)
qed

theorem missing_band_message_witness:
  "Map.empty (''z'' @ ''_ab'') = (None :: real option)
   \<and> ''z'' \<in> {''u'', ''g'', ''r'', ''i'', ''z'', ''y''}
   \<and> outcome (from_catalog recording_galsim
        \<lparr>survey = \<lparr>get_flux = (\<lambda>m. 1000)\<rparr>, no_disk = False, no_bulge = False,
         no_agn = False, verbose_model = False\<rparr> Map.empty 0 0 ''z'') =
           Inl (RuntimeError ''Catalog entry is missing %s-band AB flux value.'')
   \<and> \<not> sublist (''z'' @ ''-band'') ''Catalog entry is missing %s-band AB flux value.''"
  using missing_band_message [of Map.empty "''z''" recording_galsim
        "\<lparr>survey = \<lparr>get_flux = (\<lambda>m. 1000)\<rparr>, no_disk = False, no_bulge = False,
         no_agn = False, verbose_model = False\<rparr>" 0 0]
  by simp

text \<open>
  The band's name alone can occur in the message: the band \<^verbatim>\<open>u\<close> is a letter of the
  word \<^verbatim>\<open>flux\<close>.
\<close>

theorem message_contains_band_counterexample:
  "outcome (from_catalog recording_galsim
        \<lparr>survey = \<lparr>get_flux = (\<lambda>m. 1000)\<rparr>, no_disk = False, no_bulge = False,
         no_agn = False, verbose_model = False\<rparr> Map.empty 0 0 ''u'') =
           Inl (RuntimeError ''Catalog entry is missing %s-band AB flux value.'')
   \<and> sublist ''u'' ''Catalog entry is missing %s-band AB flux value.''"
proof
  show "outcome (from_catalog recording_galsim
        \<lparr>survey = \<lparr>get_flux = (\<lambda>m. 1000)\<rparr>, no_disk = False, no_bulge = False,
         no_agn = False, verbose_model = False\<rparr> Map.empty 0 0 ''u'') =
           Inl (RuntimeError ''Catalog entry is missing %s-band AB flux value.'')"
    by (simp add: from_catalog_def resolve_fluxes_def lookup_magnitude_def and_then_Inl)
  show "sublist ''u'' ''Catalog entry is missing %s-band AB flux value.''"
    by code_simp
qed

end
